theory Spec2Isabelle
  imports Main
begin

section \<open>Values that cross the dispatcher's boundary\<close>

text \<open>
  The framework's entry class \<open>Burger\<close> has a constructor, \<open>addGlobalMiddleware\<close> and
  \<open>serve\<close>; \<open>serve\<close> holds the request dispatcher, a closure it hands to the HTTP
  server. The class imports the server, both routers, the OpenAPI generator, the Swagger
  page and the validation middleware factory from \<open>@core\<close> and \<open>@middleware\<close>. What
  the class asks of them enters the model as the fields of an environment record
  \<open>env\<close>; none of them is given a body here.
\<close>

datatype json = JString string | JObject "(string \<times> json) list"

datatype payload = JsonBody json | HtmlBody string

record response =
  status :: nat
  body :: payload

text \<open>
  A handler or middleware either returns a response or throws. The dispatcher itself
  throws in one place only: the non-null assertion \<open>this.apiRouter!.resolve(req)\<close>.
\<close>

datatype failure = TypeError | Raised string

type_synonym outcome = "failure + response"

text \<open>
  \<open>BurgerResponse\<close> is imported as a type only. The dispatcher uses three of its
  methods, in the shapes \<open>res.status(c).json(v)\<close>, \<open>res.json(v)\<close> and \<open>res.html(s)\<close>.
  The builder is a record carrying the status the next response will have;
  \<open>res_status\<close> gives the builder with that status set.
\<close>

record builder =
  code :: nat

definition res_status :: "nat \<Rightarrow> builder \<Rightarrow> builder" where
  "res_status c r = r\<lparr>code := c\<rparr>"

definition res_json :: "json \<Rightarrow> builder \<Rightarrow> response" where
  "res_json v r = \<lparr>status = code r, body = JsonBody v\<rparr>"

definition res_html :: "string \<Rightarrow> builder \<Rightarrow> response" where
  "res_html s r = \<lparr>status = code r, body = HtmlBody s\<rparr>"

text \<open>
  The request as the dispatcher reads and writes it: \<open>pathname\<close> is
  \<open>new URL(req.url).pathname\<close>, \<open>http_method\<close> is \<open>req.method\<close>, and \<open>params\<close> is
  \<open>None\<close> until the dispatcher assigns \<open>req.params\<close>. The URL of a request that the
  server hands over is taken to parse, so \<open>new URL\<close> does not throw. \<open>validated\<close> is
  \<open>req.validated\<close>, which the example handlers read and the dispatcher never touches.
\<close>

record request =
  pathname :: string
  http_method :: string
  params :: "(string \<times> string) list option"
  validated :: "json option"

text \<open>
  A \<open>world\<close> is everything user code can see and change while one request is served:
  the request object, the response builder, and a component \<open>ext\<close> of arbitrary type
  for the rest (console, databases, further fields set on \<open>req\<close>).
\<close>

record 'u world =
  req :: request
  res :: builder
  ext :: 'u

section \<open>Middleware, handlers and the closures built from them\<close>

text \<open>
  A middleware is a function \<open>(req, res, next) => Promise<Response>\<close>. What it does with
  \<open>next\<close> is its own business: it may return (or throw) without calling it, or call it
  on the world as it has left it and go on with what comes back, possibly calling it
  again. \<open>act\<close> is the tree of these interactions. A call of \<open>next\<close> is awaited: the
  rest of the chain has run when the middleware goes on.
\<close>

datatype 'w act =
    Return outcome 'w
  | Next 'w "outcome \<Rightarrow> 'w \<Rightarrow> 'w act"

text \<open>
  A JavaScript function is an object with an identity; \<open>name\<close> stands for it, so that
  an invocation can be told from another one.
\<close>

datatype 'u middleware = Middleware (name: string) (run: "'u world \<Rightarrow> 'u world act")

datatype 'u handler = Handler (name: string) (run: "'u world \<Rightarrow> outcome \<times> 'u world")

datatype event = MwCall string | HandlerCall string

text \<open>
  A chain is one of the nullary async closures \<open>async () => ...\<close> of the dispatcher:
  run on a world it gives an outcome, the world afterwards and the calls of user
  functions it made, in order.
\<close>

type_synonym 'u chain = "'u world \<Rightarrow> outcome \<times> 'u world \<times> event list"

primrec exec :: "'u world act \<Rightarrow> 'u chain \<Rightarrow> outcome \<times> 'u world \<times> event list" where
  "exec (Return r w) nxt = (r, w, [])"
| "exec (Next w k) nxt =
     (case nxt w of (r, w', t) \<Rightarrow>
        (case exec (k r w') nxt of (r', w'', t') \<Rightarrow> (r', w'', t @ t')))"

text \<open>\<open>async () => mw(req, res, next)\<close>\<close>

definition call_mw :: "'u middleware \<Rightarrow> 'u chain \<Rightarrow> 'u chain" where
  "call_mw mw nxt w =
     (case exec (middleware.run mw w) nxt of (r, w', t) \<Rightarrow> (r, w', MwCall (middleware.name mw) # t))"

text \<open>\<open>async () => handler(req, res)\<close>\<close>

definition call_handler :: "'u handler \<Rightarrow> 'u chain" where
  "call_handler h w =
     (case handler.run h w of (r, w') \<Rightarrow> (r, w', [HandlerCall (handler.name h)]))"

text \<open>
  The body of both \<open>for (const mw of ...)\<close> loops: each element in turn wraps the chain
  built so far.
\<close>

fun wrap_each :: "'u middleware list \<Rightarrow> 'u chain \<Rightarrow> 'u chain" where
  "wrap_each [] chain = chain"
| "wrap_each (mw # mws) chain = wrap_each mws (call_mw mw chain)"

section \<open>Arrays in a store\<close>

text \<open>
  \<open>Array.prototype.reverse\<close> reverses in place, and the middleware arrays are shared
  between requests, so arrays live in a store and are referred to by address.
  \<open>slice\<close> allocates a copy; \<open>reverse\<close> overwrites the array it is called on.
\<close>

record 'u store =
  arrays :: "nat \<Rightarrow> 'u middleware list"
  fresh :: nat

definition alloc :: "'u middleware list \<Rightarrow> 'u store \<Rightarrow> nat \<times> 'u store" where
  "alloc xs s = (fresh s, s\<lparr>arrays := (arrays s)(fresh s := xs), fresh := Suc (fresh s)\<rparr>)"

definition slice :: "nat \<Rightarrow> 'u store \<Rightarrow> nat \<times> 'u store" where
  "slice a s = alloc (arrays s a) s"

definition reverse :: "nat \<Rightarrow> 'u store \<Rightarrow> nat \<times> 'u store" where
  "reverse a s = (a, s\<lparr>arrays := (arrays s)(a := rev (arrays s a))\<rparr>)"

definition push :: "nat \<Rightarrow> 'u middleware \<Rightarrow> 'u store \<Rightarrow> 'u store" where
  "push a mw s = s\<lparr>arrays := (arrays s)(a := arrays s a @ [mw])\<rparr>"

section \<open>The framework's objects\<close>

text \<open>
  A route as the dispatcher reads it: \<open>route.handlers[method]\<close>, \<open>route.middleware\<close>
  (optional, a reference to the array the route module exports) and \<open>route.schema\<close>
  (optional, an object keyed by lower-case method name, as in the example route modules,
  whose entries are opaque here).
\<close>

type_synonym schema = "(string \<times> string) list"

record 'u route =
  handlers :: "string \<rightharpoonup> 'u handler"
  middleware :: "nat option"
  schema :: "schema option"

record 'u api_router =
  dir :: string
  prefix :: string
  routes :: "'u route list"

record page_router =
  pageDir :: string
  pagePrefix :: string
  pages :: "(string \<times> nat) list"

text \<open>\<open>ServerOptions\<close>: the three options the constructor reads.\<close>

record 'u server_options =
  apiDir :: "string option"
  pageDir_option :: "string option"
  globalMiddleware_option :: "'u middleware list option"

text \<open>
  \<open>serve\<close> passes one of two closures to \<open>Server.start\<close>. The \<open>server\<close> field of the
  model keeps the arguments of that call and is \<open>None\<close> before it.
\<close>

datatype request_handler = ApiHandler | DefaultHandler

record server =
  pageRoutes :: "(string \<rightharpoonup> nat) option"
  requestHandler :: request_handler
  port :: nat

record 'u burger =
  server :: "server option"
  apiRouter :: "'u api_router option"
  pageRouter :: "page_router option"
  globalMiddleware :: nat
  options :: "'u server_options"

text \<open>
  The imported collaborators. \<open>resolve\<close> gives the route, if any, and the parameters;
  like the document generator and the validation middleware factory it is taken as a
  function of its arguments, with no effect on the router or the request (the resolver is
  specified as read-only). \<open>loadRoutes\<close> and \<open>loadPages\<close> read the route modules from
  disk; loading a route module is what creates the route's middleware array, hence the
  store.
\<close>

record 'u env =
  resolve :: "'u api_router \<Rightarrow> request \<Rightarrow> 'u route option \<times> (string \<times> string) list"
  generateOpenAPIDocument :: "'u api_router \<Rightarrow> 'u server_options \<Rightarrow> json"
  swaggerHtml :: string
  createValidationMiddleware :: "schema \<Rightarrow> 'u middleware"
  loadRoutes :: "'u api_router \<Rightarrow> 'u store \<Rightarrow> 'u api_router \<times> 'u store"
  loadPages :: "page_router \<Rightarrow> page_router"

section \<open>Constructor and \<open>addGlobalMiddleware\<close>\<close>

definition addGlobalMiddleware :: "'u middleware \<Rightarrow> 'u burger \<Rightarrow> 'u store \<Rightarrow> 'u store" where
  "addGlobalMiddleware mw b s = push (globalMiddleware b) mw s"

text \<open>
  \<open>if (options.apiDir)\<close> tests truthiness: an empty string counts as absent. The field
  initialiser \<open>globalMiddleware: Middleware[] = []\<close> allocates the array, before the
  body of the constructor runs.
\<close>

definition new_Burger :: "'u server_options \<Rightarrow> 'u store \<Rightarrow> 'u burger \<times> 'u store" where
  "new_Burger opts s =
     (case alloc [] s of (g, s1) \<Rightarrow>
        let b = \<lparr>server = None,
                 apiRouter =
                   (case apiDir opts of
                      None \<Rightarrow> None
                    | Some d \<Rightarrow>
                        if d \<noteq> [] then Some \<lparr>dir = d, prefix = ''api'', routes = []\<rparr> else None),
                 pageRouter =
                   (case pageDir_option opts of
                      None \<Rightarrow> None
                    | Some d \<Rightarrow>
                        if d \<noteq> [] then Some \<lparr>pageDir = d, pagePrefix = [], pages = []\<rparr> else None),
                 globalMiddleware = g,
                 options = opts\<rparr>
        in (case globalMiddleware_option opts of
              None \<Rightarrow> (b, s1)
            | Some mws \<Rightarrow> (b, fold (\<lambda>mw. addGlobalMiddleware mw b) mws s1)))"

section \<open>The dispatcher\<close>

text \<open>
  \<open>String.prototype.toUpperCase\<close> on the ASCII letters, which is all an HTTP method name
  holds; other characters are left as they are.
\<close>

definition toUpperCase :: "string \<Rightarrow> string" where
  "toUpperCase s =
     map (\<lambda>c. case map_of (zip ''abcdefghijklmnopqrstuvwxyz'' ''ABCDEFGHIJKLMNOPQRSTUVWXYZ'') c of
                 None \<Rightarrow> c | Some C \<Rightarrow> C) s"

definition router_not_configured :: json where
  "router_not_configured =
     JObject [(''error'', JString ''API Router not configured''),
              (''message'', JString ''Please provide an apiDir option when initializing the Burger instance to enable OpenAPI documentation.'')]"

definition route_not_found :: json where
  "route_not_found = JObject [(''error'', JString ''Route not found'')]"

definition method_not_allowed :: json where
  "method_not_allowed = JObject [(''error'', JString ''Method Not Allowed'')]"

text \<open>Step 1 of the composition: the handler, wrapped by the route's own middleware.\<close>

definition route_chain :: "'u route \<Rightarrow> 'u handler \<Rightarrow> 'u store \<Rightarrow> 'u chain \<times> 'u store" where
  "route_chain rt h s =
     (let routeChain = call_handler h in
      case middleware rt of
        None \<Rightarrow> (routeChain, s)
      | Some a \<Rightarrow>
          if length (arrays s a) > 0 then
            (case slice a s of (c, s1) \<Rightarrow>
               case reverse c s1 of (d, s2) \<Rightarrow> (wrap_each (arrays s2 d) routeChain, s2))
          else (routeChain, s))"

text \<open>Step 2: the validation middleware, if \<open>route.schema\<close> is there.\<close>

definition composed_chain :: "'u env \<Rightarrow> 'u route \<Rightarrow> 'u chain \<Rightarrow> 'u chain" where
  "composed_chain env rt routeChain =
     (case schema rt of
        None \<Rightarrow> routeChain
      | Some sc \<Rightarrow> call_mw (createValidationMiddleware env sc) routeChain)"

text \<open>Step 3: the global middleware around everything.\<close>

definition final_handler :: "'u burger \<Rightarrow> 'u chain \<Rightarrow> 'u store \<Rightarrow> 'u chain \<times> 'u store" where
  "final_handler b composedChain s =
     (if length (arrays s (globalMiddleware b)) > 0 then
        (case slice (globalMiddleware b) s of (c, s1) \<Rightarrow>
           case reverse c s1 of (d, s2) \<Rightarrow> (wrap_each (arrays s2 d) composedChain, s2))
      else (composedChain, s))"

definition build_chain ::
  "'u env \<Rightarrow> 'u burger \<Rightarrow> 'u route \<Rightarrow> 'u handler \<Rightarrow> 'u store \<Rightarrow> 'u chain \<times> 'u store" where
  "build_chain env b rt h s =
     (case route_chain rt h s of (routeChain, s1) \<Rightarrow>
        final_handler b (composed_chain env rt routeChain) s1)"

text \<open>
  The closure passed to \<open>Server.start\<close> when an API router exists. It reads the fields of
  \<open>this\<close> when a request arrives and assigns none of them; what it returns is the
  outcome, the world after the request, the user functions called, and the store.
\<close>

definition api_handler ::
  "'u env \<Rightarrow> 'u burger \<Rightarrow> 'u store \<Rightarrow> 'u world \<Rightarrow> outcome \<times> 'u world \<times> event list \<times> 'u store" where
  "api_handler env b s w =
     (if pathname (req w) = ''/openapi.json'' then
        (case apiRouter b of
           Some r \<Rightarrow> (Inr (res_json (generateOpenAPIDocument env r (options b)) (res w)), w, [], s)
         | None \<Rightarrow> (Inr (res_json router_not_configured (res_status 500 (res w))), w, [], s))
      else if pathname (req w) = ''/docs'' then
        (Inr (res_html (swaggerHtml env) (res w)), w, [], s)
      else
        (case apiRouter b of
           None \<Rightarrow> (Inl TypeError, w, [], s)
         | Some r \<Rightarrow>
             (case resolve env r (req w) of (route, ps) \<Rightarrow>
                (case route of
                   None \<Rightarrow> (Inr (res_json route_not_found (res_status 404 (res w))), w, [], s)
                 | Some rt \<Rightarrow>
                     let w1 = w\<lparr>req := (req w)\<lparr>params := Some ps\<rparr>\<rparr> in
                     (case handlers rt (toUpperCase (http_method (req w1))) of
                        None \<Rightarrow>
                          (Inr (res_json method_not_allowed (res_status 405 (res w1))), w1, [], s)
                      | Some h \<Rightarrow>
                          (case build_chain env b rt h s of (finalHandler, s') \<Rightarrow>
                             (case finalHandler w1 of (r, w2, t) \<Rightarrow> (r, w2, t, s'))))))))"

text \<open>The closure passed to \<open>Server.start\<close> when there is no API router.\<close>

definition default_handler :: "'u store \<Rightarrow> 'u world \<Rightarrow> outcome \<times> 'u world \<times> event list \<times> 'u store" where
  "default_handler s w =
     (Inr (res_json (JObject [(''message'', JString ''Hello from burger-api!'')])
             (res_status 200 (res w))), w, [], s)"

definition handle_request ::
  "'u env \<Rightarrow> request_handler \<Rightarrow> 'u burger \<Rightarrow> 'u store \<Rightarrow> 'u world
     \<Rightarrow> outcome \<times> 'u world \<times> event list \<times> 'u store" where
  "handle_request env k b s w =
     (case k of ApiHandler \<Rightarrow> api_handler env b s w | DefaultHandler \<Rightarrow> default_handler s w)"

section \<open>The validation middleware\<close>

text \<open>
  Modelled from the spec: \<open>createValidationMiddleware\<close>, the factory of the module
  \<open>@middleware/validator\<close>, which the entry class only imports. The specification of the validation
  stage says: the middleware invokes the validator with the schema of the request's
  method; on success it attaches the normalised data to the request as \<open>validated\<close> and
  calls \<open>next\<close>; on failure it produces an error response with a client-error status
  and does not call \<open>next\<close>; if no schema exists for the method, it is a no-op
  pass-through. The validator \<open>validate(schema, request)\<close> gives the errors (\<open>Inl\<close>) or
  the data (\<open>Inr\<close>); it and the client-error status are parameters. Schema objects are
  keyed by the method in lower case, as in the example route modules.
\<close>

definition toLowerCase :: "string \<Rightarrow> string" where
  "toLowerCase s =
     map (\<lambda>c. case map_of (zip ''ABCDEFGHIJKLMNOPQRSTUVWXYZ'' ''abcdefghijklmnopqrstuvwxyz'') c of
                 None \<Rightarrow> c | Some C \<Rightarrow> C) s"

definition spec_createValidationMiddleware ::
  "(string \<Rightarrow> request \<Rightarrow> json + json) \<Rightarrow> nat \<Rightarrow> schema \<Rightarrow> 'u middleware" where
  "spec_createValidationMiddleware validate client_error sc =
     Middleware ''validation''
       (\<lambda>w. case map_of sc (toLowerCase (http_method (req w))) of
              None \<Rightarrow> Next w Return
            | Some method_schema \<Rightarrow>
                (case validate method_schema (req w) of
                   Inr data \<Rightarrow> Next (w\<lparr>req := (req w)\<lparr>validated := Some data\<rparr>\<rparr>) Return
                 | Inl errors \<Rightarrow>
                     Return (Inr (res_json errors (res_status client_error (res w)))) w))"

section \<open>\<open>serve\<close>\<close>

text \<open>
  \<open>serve(port = 4000, cb)\<close>: page routes are collected into an object keyed by path, the
  API routes are loaded, and the server is started with the closure that fits. The
  callback \<open>cb\<close> is only passed on to the server and is left out.
\<close>

definition serve :: "'u env \<Rightarrow> nat option \<Rightarrow> 'u burger \<times> 'u store \<Rightarrow> 'u burger \<times> 'u store" where
  "serve env port_arg st =
     (case st of (b, s) \<Rightarrow>
        let p = (case port_arg of None \<Rightarrow> 4000 | Some n \<Rightarrow> n);
            pr = map_option (loadPages env) (pageRouter b);
            routes_obj =
              (case pr of
                 None \<Rightarrow> Map.empty
               | Some pg \<Rightarrow>
                   if length (pages pg) > 0
                   then fold (\<lambda>page rs. rs(fst page \<mapsto> snd page)) (pages pg) Map.empty
                   else Map.empty);
            b1 = b\<lparr>pageRouter := pr\<rparr>
        in (case apiRouter b1 of
              Some r \<Rightarrow>
                (case loadRoutes env r s of (r', s') \<Rightarrow>
                   (b1\<lparr>apiRouter := Some r',
                       server := Some \<lparr>pageRoutes = Some routes_obj, requestHandler = ApiHandler, port = p\<rparr>\<rparr>,
                    s'))
            | None \<Rightarrow>
                (b1\<lparr>server := Some \<lparr>pageRoutes = None, requestHandler = DefaultHandler, port = p\<rparr>\<rparr>, s)))"

text \<open>
  The states a \<open>Burger\<close> object can be in: constructed, then any sequence of
  \<open>addGlobalMiddleware\<close>, \<open>serve\<close> and requests handled by the closure that \<open>serve\<close>
  installed.
\<close>

inductive reachable :: "'u env \<Rightarrow> 'u burger \<times> 'u store \<Rightarrow> bool" for env :: "'u env" where
  constructed: "reachable env (new_Burger opts s)"
| added: "reachable env (b, s) \<Longrightarrow> reachable env (b, addGlobalMiddleware mw b s)"
| served: "reachable env st \<Longrightarrow> reachable env (serve env port_arg st)"
| handled:
    "reachable env (b, s) \<Longrightarrow> server b = Some sv \<Longrightarrow>
     handle_request env (requestHandler sv) b s w = (r, w', t, s') \<Longrightarrow> reachable env (b, s')"

section \<open>Vocabulary of the properties\<close>

text \<open>
  The middleware of a request in the order global, validation, route; the theorems below
  show that this is the order in which the composed chain nests them.
\<close>

definition validation_stage :: "'u env \<Rightarrow> 'u route \<Rightarrow> 'u middleware list" where
  "validation_stage env rt =
     (case schema rt of None \<Rightarrow> [] | Some sc \<Rightarrow> [createValidationMiddleware env sc])"

definition route_middleware :: "'u route \<Rightarrow> 'u store \<Rightarrow> 'u middleware list" where
  "route_middleware rt s = (case middleware rt of None \<Rightarrow> [] | Some a \<Rightarrow> arrays s a)"

definition stages :: "'u env \<Rightarrow> 'u burger \<Rightarrow> 'u route \<Rightarrow> 'u store \<Rightarrow> 'u middleware list" where
  "stages env b rt s =
     arrays s (globalMiddleware b) @ validation_stage env rt @ route_middleware rt s"


text \<open>The request after \<open>req.params = params\<close>.\<close>

definition attach :: "(string \<times> string) list \<Rightarrow> 'u world \<Rightarrow> 'u world" where
  "attach ps w = w\<lparr>req := (req w)\<lparr>params := Some ps\<rparr>\<rparr>"

text \<open>An option string that JavaScript takes for true: present and not empty.\<close>

definition truthy :: "string option \<Rightarrow> bool" where
  "truthy x = (case x of None \<Rightarrow> False | Some v \<Rightarrow> v \<noteq> [])"

definition special_path :: "string \<Rightarrow> bool" where
  "special_path p = (p = ''/openapi.json'' \<or> p = ''/docs'')"



fun reached :: "'u middleware list \<Rightarrow> 'u world \<Rightarrow> 'u middleware list" where
  "reached [] w = []"
| "reached (m # ms) w =
     m # (case middleware.run m w of Return r w' \<Rightarrow> [] | Next w1 k \<Rightarrow> reached ms w1)"

inductive passes :: "'u middleware list \<Rightarrow> 'u world \<Rightarrow> 'u world \<Rightarrow> bool" where
  passes_Nil: "passes [] w w"
| passes_Cons: "middleware.run m w = Next w1 Return \<Longrightarrow> passes ms w1 w2 \<Longrightarrow> passes (m # ms) w w2"


section \<open>A small application, for the concrete instances\<close>

text \<open>
  User code in the style of the example route modules: a middleware that logs a line and
  ends with \<open>return next()\<close>, one that answers by itself, and a handler that answers with
  its own name. The user part of the world is the console.
\<close>

definition logging :: "string \<Rightarrow> string list middleware" where
  "logging n = Middleware n (\<lambda>w. Next (w\<lparr>ext := ext w @ [n]\<rparr>) Return)"


definition answering :: "string \<Rightarrow> string list handler" where
  "answering n = Handler n (\<lambda>w. (Inr (res_json (JString n) (res w)), w))"

text \<open>
  One route, \<open>/api/products\<close>, with handlers for \<open>GET\<close> and \<open>POST\<close>, route middleware
  at address 1 and a schema for \<open>post\<close> only; the global middleware at address 0. The
  validation middleware of this application finds every request valid and hands it on
  untouched.
\<close>

definition passing :: "string \<Rightarrow> string list middleware" where
  "passing n = Middleware n (\<lambda>w. Next w Return)"



definition products :: "string list route" where
  "products = \<lparr>handlers = [''GET'' \<mapsto> answering ''GET'', ''POST'' \<mapsto> answering ''POST''],
               middleware = Some 1, schema = Some [(''post'', ''body'')]\<rparr>"

definition products_plain :: "string list route" where
  "products_plain = products\<lparr>schema := None\<rparr>"

definition demo_router :: "string list route \<Rightarrow> string list api_router" where
  "demo_router rt = \<lparr>dir = ''api'', prefix = ''api'', routes = [rt]\<rparr>"

definition demo_options :: "string list server_options" where
  "demo_options = \<lparr>apiDir = Some ''api'', pageDir_option = None, globalMiddleware_option = None\<rparr>"

definition bare_options :: "string list server_options" where
  "bare_options = \<lparr>apiDir = None, pageDir_option = None, globalMiddleware_option = None\<rparr>"

definition demo_env :: "string list env" where
  "demo_env =
     \<lparr>resolve = (\<lambda>r rq. case routes r of
                          [] \<Rightarrow> (None, [])
                        | rt # rts \<Rightarrow>
                            if pathname rq = ''/api/products'' then (Some rt, []) else (None, [])),
      generateOpenAPIDocument = (\<lambda>r opts. JObject [(''openapi'', JString ''3.0.0'')]),
      swaggerHtml = ''<html></html>'',
      createValidationMiddleware = (\<lambda>sc. passing ''validate''),
      loadRoutes = (\<lambda>r s. (r, s)),
      loadPages = (\<lambda>p. p)\<rparr>"

text \<open>
  The same application with the validation middleware of the specification, over a
  validator that wants a \<open>name\<close> parameter wherever a schema applies.
\<close>

definition demo_validate :: "string \<Rightarrow> request \<Rightarrow> json + json" where
  "demo_validate method_schema rq =
     (case params rq of
        None \<Rightarrow> Inl (JObject [(''error'', JString ''Validation failed'')])
      | Some ps \<Rightarrow>
          (case map_of ps ''name'' of
             None \<Rightarrow> Inl (JObject [(''error'', JString ''Validation failed'')])
           | Some v \<Rightarrow> Inr (JObject [(''name'', JString v)])))"

definition validating_env :: "string list env" where
  "validating_env =
     demo_env\<lparr>createValidationMiddleware := spec_createValidationMiddleware demo_validate 400\<rparr>"

definition demo_burger :: "string list route \<Rightarrow> string list burger" where
  "demo_burger rt =
     \<lparr>server = Some \<lparr>pageRoutes = Some Map.empty, requestHandler = ApiHandler, port = 4000\<rparr>,
      apiRouter = Some (demo_router rt), pageRouter = None, globalMiddleware = 0,
      options = demo_options\<rparr>"

definition demo_store :: "string list middleware list \<Rightarrow> string list middleware list \<Rightarrow> string list store" where
  "demo_store gs rs = \<lparr>arrays = (\<lambda>a. if a = 0 then gs else if a = 1 then rs else []), fresh = 2\<rparr>"

definition empty_store :: "string list store" where
  "empty_store = \<lparr>arrays = (\<lambda>a. []), fresh = 0\<rparr>"

definition demo_request :: "string \<Rightarrow> string \<Rightarrow> string list world" where
  "demo_request m p =
     \<lparr>req = \<lparr>pathname = p, http_method = m, params = None, validated = None\<rparr>,
      res = \<lparr>code = 200\<rparr>, ext = []\<rparr>"

text \<open>
  Two objects after \<open>new Burger(options)\<close> and \<open>serve()\<close>: one made without \<open>apiDir\<close>, one
  with it.
\<close>

definition bare_app :: "string list burger \<times> string list store" where
  "bare_app = serve demo_env None (new_Burger bare_options empty_store)"

definition demo_app :: "string list burger \<times> string list store" where
  "demo_app = serve demo_env None (new_Burger demo_options empty_store)"

text \<open>
  A request \<open>get /api/products\<close> (the method in lower case, as a client may send it)
  once its parameters are attached, with a given console.
\<close>

definition logged :: "string list \<Rightarrow> string list world" where
  "logged ns = (attach [] (demo_request ''get'' ''/api/products''))\<lparr>ext := ns\<rparr>"

section \<open>The composed chain\<close>

text \<open>
  Both loops run over a reversed copy, so the closure they leave nests the middleware in
  the order of the array: the first element is outermost.
\<close>

lemma wrap_each_fold: "wrap_each ms c = fold call_mw ms c"
  by (induction ms arbitrary: c) simp_all

lemma wrap_each_rev: "wrap_each (rev ms) c = foldr call_mw ms c"
  by (simp add: wrap_each_fold foldr_conv_fold)


lemma call_mw_Next_Return:
  "middleware.run m w = Next w1 Return \<Longrightarrow>
   call_mw m nxt w = (case nxt w1 of (r, w2, t) \<Rightarrow> (r, w2, MwCall (middleware.name m) # t))"
  by (simp add: call_mw_def split: prod.split)


lemma route_chain_fst:
  "fst (route_chain rt h s) = foldr call_mw (route_middleware rt s) (call_handler h)"
  by (simp add: route_chain_def route_middleware_def slice_def alloc_def reverse_def
      wrap_each_rev Let_def split: option.split)

lemma route_chain_frame:
  "a < fresh s \<Longrightarrow> arrays (snd (route_chain rt h s)) a = arrays s a"
  by (simp add: route_chain_def slice_def alloc_def reverse_def Let_def split: option.split)

lemma route_chain_fresh: "fresh s \<le> fresh (snd (route_chain rt h s))"
  by (simp add: route_chain_def slice_def alloc_def reverse_def Let_def split: option.split)

lemma composed_chain_eq:
  "composed_chain env rt c = foldr call_mw (validation_stage env rt) c"
  by (simp add: composed_chain_def validation_stage_def split: option.split)

lemma final_handler_fst:
  "fst (final_handler b c s) = foldr call_mw (arrays s (globalMiddleware b)) c"
  by (simp add: final_handler_def slice_def alloc_def reverse_def wrap_each_rev)

lemma final_handler_frame:
  "a < fresh s \<Longrightarrow> arrays (snd (final_handler b c s)) a = arrays s a"
  by (simp add: final_handler_def slice_def alloc_def reverse_def)

lemma final_handler_fresh: "fresh s \<le> fresh (snd (final_handler b c s))"
  by (simp add: final_handler_def slice_def alloc_def reverse_def)

lemma build_chain_fst:
  assumes "globalMiddleware b < fresh s"
  shows "fst (build_chain env b rt h s) = foldr call_mw (stages env b rt s) (call_handler h)"
proof -
  obtain c s1 where rc: "route_chain rt h s = (c, s1)" by (cases "route_chain rt h s")
  have c: "c = foldr call_mw (route_middleware rt s) (call_handler h)"
    using route_chain_fst [of rt h s] rc by simp
  have g: "arrays s1 (globalMiddleware b) = arrays s (globalMiddleware b)"
    using route_chain_frame [OF assms, of rt h] rc by simp
  show ?thesis
    by (simp add: build_chain_def rc final_handler_fst g composed_chain_eq c stages_def)
qed

lemma build_chain_frame:
  assumes "a < fresh s"
  shows "arrays (snd (build_chain env b rt h s)) a = arrays s a"
proof -
  obtain c s1 where rc: "route_chain rt h s = (c, s1)" by (cases "route_chain rt h s")
  have 1: "arrays s1 a = arrays s a" using route_chain_frame [OF assms, of rt h] rc by simp
  have 2: "a < fresh s1" using route_chain_fresh [of s rt h] rc assms by simp
  show ?thesis
    by (simp add: build_chain_def rc final_handler_frame [OF 2] 1)
qed






lemma passes_append: "passes xs w w1 \<Longrightarrow> passes ys w1 w2 \<Longrightarrow> passes (xs @ ys) w w2"
  by (induction xs w w1 rule: passes.induct) (auto intro: passes.intros)





lemma reached_prefix: "take (length (reached ms w)) ms = reached ms w"
  by (induction ms arbitrary: w) (auto split: act.splits)

lemma build_chain_fresh: "fresh s \<le> fresh (snd (build_chain env b rt h s))"
proof -
  obtain c s1 where rc: "route_chain rt h s = (c, s1)" by (cases "route_chain rt h s")
  have "fresh s \<le> fresh s1" using route_chain_fresh [of s rt h] rc by simp
  also have "fresh s1 \<le> fresh (snd (final_handler b (composed_chain env rt c) s1))"
    by (rule final_handler_fresh)
  finally show ?thesis by (simp add: build_chain_def rc)
qed

lemma api_handler_store:
  "snd (snd (snd (api_handler env b s w))) = s \<or>
   (\<exists>rt h. snd (snd (snd (api_handler env b s w))) = snd (build_chain env b rt h s))"
proof (cases "snd (snd (snd (api_handler env b s w))) = s")
  case True
  then show ?thesis by simp
next
  case False
  then obtain rt h c s2 where "build_chain env b rt h s = (c, s2)"
    and "snd (snd (snd (api_handler env b s w))) = s2"
    by (auto simp add: api_handler_def Let_def split: option.splits prod.splits if_splits)
  then have "snd (snd (snd (api_handler env b s w))) = snd (build_chain env b rt h s)" by simp
  then show ?thesis by blast
qed



lemma spec_validation_passes:
  "map_of sc (toLowerCase (http_method (req w))) = None \<Longrightarrow>
   middleware.run (spec_createValidationMiddleware validate ce sc) w = Next w Return"
  by (simp add: spec_createValidationMiddleware_def)

lemma spec_validation_name:
  "middleware.name (spec_createValidationMiddleware validate ce sc) = ''validation''"
  by (simp add: spec_createValidationMiddleware_def)

section \<open>What the object's methods keep\<close>

lemma new_Burger_fst:
  "server (fst (new_Burger opts s)) = None"
  "(apiRouter (fst (new_Burger opts s)) = None) = (\<not> truthy (apiDir opts))"
  "options (fst (new_Burger opts s)) = opts"
  by (simp_all add: new_Burger_def alloc_def truthy_def Let_def split: option.split)

lemma serve_requestHandler:
  "server (fst (serve env p (b, s))) = Some sv \<Longrightarrow>
   requestHandler sv = (if apiRouter b = None then DefaultHandler else ApiHandler)"
  by (auto simp add: serve_def Let_def split: option.splits prod.splits)

lemma serve_fst:
  "(apiRouter (fst (serve env p (b, s))) = None) = (apiRouter b = None)"
  "options (fst (serve env p (b, s))) = options b"
  by (simp_all add: serve_def Let_def split: option.split prod.split)

lemma reachable_invariant:
  assumes "reachable env st"
  shows "(apiRouter (fst st) = None) = (\<not> truthy (apiDir (options (fst st))))
       \<and> (\<forall>sv. server (fst st) = Some sv \<longrightarrow>
            (requestHandler sv = DefaultHandler) = (apiRouter (fst st) = None))"
  using assms
proof (induction rule: reachable.induct)
  case (constructed opts s)
  then show ?case by (simp add: new_Burger_fst)
next
  case (added b s mw)
  then show ?case by simp
next
  case (served st port_arg)
  obtain b s where st: "st = (b, s)" by (cases st)
  show ?case
    using served.IH
    by (auto simp add: st serve_fst dest: serve_requestHandler)
next
  case (handled b s sv w r w' t s')
  then show ?case by simp
qed

section \<open>Facts about the small application\<close>

lemma demo_not_special: "\<not> special_path (pathname (req (demo_request m ''/api/products'')))"
  by (simp add: special_path_def demo_request_def)

lemma demo_apiRouter: "apiRouter (demo_burger rt) = Some (demo_router rt)"
  by (simp add: demo_burger_def)

lemma demo_resolve:
  "resolve demo_env (demo_router rt) (req (demo_request m ''/api/products'')) = (Some rt, [])"
  by (simp add: demo_env_def demo_router_def demo_request_def)

lemma demo_global: "globalMiddleware (demo_burger rt) < fresh (demo_store gs rs)"
  by (simp add: demo_burger_def demo_store_def)

lemma demo_global_array: "arrays (demo_store gs rs) (globalMiddleware (demo_burger rt)) = gs"
  by (simp add: demo_burger_def demo_store_def)




lemma passing_run: "middleware.run (passing n) w = Next w Return"
  by (simp add: passing_def)





lemma products_route_middleware: "route_middleware products (demo_store gs rs) = rs"
  by (simp add: route_middleware_def products_def demo_store_def)



lemma products_plain_validation: "validation_stage demo_env products_plain = []"
  by (simp add: validation_stage_def products_plain_def)

lemma products_plain_route_middleware: "route_middleware products_plain (demo_store gs rs) = rs"
  by (simp add: route_middleware_def products_plain_def products_def demo_store_def)

lemma products_schema: "schema products = Some [(''post'', ''body'')]"
  by (simp add: products_def)

lemma products_plain_schema: "schema products_plain = None"
  by (simp add: products_plain_def)



lemma demo_app_reachable: "reachable demo_env (fst demo_app, snd demo_app)"
  unfolding demo_app_def by (simp add: reachable.served reachable.constructed)

lemma bare_app_reachable: "reachable demo_env (fst bare_app, snd bare_app)"
  unfolding bare_app_def by (simp add: reachable.served reachable.constructed)

lemma demo_app_server:
  "server (fst demo_app) = Some \<lparr>pageRoutes = Some Map.empty, requestHandler = ApiHandler, port = 4000\<rparr>"
  by (simp add: demo_app_def serve_def new_Burger_def alloc_def truthy_def demo_options_def
      demo_env_def empty_store_def Let_def)

lemma demo_app_apiRouter:
  "apiRouter (fst demo_app) = Some \<lparr>dir = ''api'', prefix = ''api'', routes = []\<rparr>"
  by (simp add: demo_app_def serve_def new_Burger_def alloc_def truthy_def demo_options_def
      demo_env_def empty_store_def Let_def)

lemma bare_app_server:
  "server (fst bare_app) = Some \<lparr>pageRoutes = None, requestHandler = DefaultHandler, port = 4000\<rparr>"
  by (simp add: bare_app_def serve_def new_Burger_def alloc_def truthy_def bare_options_def
      demo_env_def empty_store_def Let_def)

lemma bare_app_apiRouter: "apiRouter (fst bare_app) = None"
  by (simp add: bare_app_def serve_def new_Burger_def alloc_def truthy_def bare_options_def
      demo_env_def empty_store_def Let_def)




lemma validating_env_factory:
  "createValidationMiddleware validating_env = spec_createValidationMiddleware demo_validate 400"
  by (simp add: validating_env_def)

lemma logged_method: "toLowerCase (http_method (req (logged ns))) = ''get''"
  by (simp add: logged_def attach_def demo_request_def toLowerCase_def)

section \<open>Order of execution\<close>









text \<open>
  C4. The dispatcher inserts the validation stage when the route has a schema object;
  what the stage does for the method at hand is the validation middleware's part, taken
  here as the specification describes it. If the route declares a schema for the
  request's method, the composed chain is the global middleware, first registered
  outermost, around the validation middleware, around the route chain, which is the
  route middleware, first declared outermost, around the handler. If the route has a
  schema object with no entry for the method, the validation middleware hands the
  untouched world to the route chain and returns what it returns: outcome and world are
  those of the route chain, and the calls are those of the route chain after the one call
  of the pass-through itself. If the route has no schema object, the validation stage is
  the route chain itself.
\<close>

theorem validation_stage_per_method:
  assumes "globalMiddleware b < fresh s"
    and "createValidationMiddleware env = spec_createValidationMiddleware validate ce"
  shows "(schema rt = Some sc \<longrightarrow> map_of sc (toLowerCase (http_method (req w))) = Some ms \<longrightarrow>
            fst (build_chain env b rt h s) =
              foldr call_mw (arrays s (globalMiddleware b))
                (call_mw (spec_createValidationMiddleware validate ce sc)
                   (foldr call_mw (route_middleware rt s) (call_handler h))))
       \<and> (schema rt = Some sc \<longrightarrow> map_of sc (toLowerCase (http_method (req w))) = None \<longrightarrow>
            fst (build_chain env b rt h s) =
              foldr call_mw (arrays s (globalMiddleware b))
                (composed_chain env rt (fst (route_chain rt h s)))
            \<and> fst (composed_chain env rt (fst (route_chain rt h s)) w) = fst (fst (route_chain rt h s) w)
            \<and> fst (snd (composed_chain env rt (fst (route_chain rt h s)) w))
                = fst (snd (fst (route_chain rt h s) w))
            \<and> snd (snd (composed_chain env rt (fst (route_chain rt h s)) w))
                = MwCall ''validation'' # snd (snd (fst (route_chain rt h s) w)))
       \<and> (schema rt = None \<longrightarrow>
            composed_chain env rt (fst (route_chain rt h s)) = fst (route_chain rt h s)
            \<and> fst (build_chain env b rt h s) =
                foldr call_mw (arrays s (globalMiddleware b)) (fst (route_chain rt h s)))
       \<and> fst (route_chain rt h s) = foldr call_mw (route_middleware rt s) (call_handler h)"
proof -
  let ?rc = "fst (route_chain rt h s)"
  have rc: "?rc = foldr call_mw (route_middleware rt s) (call_handler h)"
    by (rule route_chain_fst)
  have bc: "fst (build_chain env b rt h s) =
      foldr call_mw (arrays s (globalMiddleware b)) (composed_chain env rt ?rc)"
    using build_chain_fst [OF assms(1), of env rt h]
    by (simp add: stages_def composed_chain_eq rc)
  have with_entry: "fst (build_chain env b rt h s) =
      foldr call_mw (arrays s (globalMiddleware b))
        (call_mw (spec_createValidationMiddleware validate ce sc)
           (foldr call_mw (route_middleware rt s) (call_handler h)))"
    if "schema rt = Some sc"
    using bc that by (simp add: composed_chain_def assms(2) rc)
  have pass: "composed_chain env rt ?rc w =
      (case ?rc w of (r, w', t) \<Rightarrow> (r, w', MwCall ''validation'' # t))"
    if sc: "schema rt = Some sc" and none: "map_of sc (toLowerCase (http_method (req w))) = None"
    using call_mw_Next_Return [OF spec_validation_passes [OF none, of validate ce], of ?rc]
    by (simp add: composed_chain_def sc assms(2) spec_validation_name)
  have absent: "composed_chain env rt ?rc = ?rc" if "schema rt = None"
    using that by (simp add: composed_chain_def)
  show ?thesis
    using with_entry pass absent bc rc by (auto split: prod.splits)
qed

theorem validation_stage_per_method_witness:
  "createValidationMiddleware validating_env = spec_createValidationMiddleware demo_validate 400
   \<and> schema products = Some [(''post'', ''body'')]
   \<and> map_of [(''post'', ''body'')] (toLowerCase (http_method (req (demo_request ''POST'' ''/api/products''))))
       = Some ''body''
   \<and> fst (build_chain validating_env (demo_burger products) products (answering ''POST'')
        (demo_store [logging ''global''] [logging ''route''])) =
      call_mw (logging ''global'')
        (call_mw (spec_createValidationMiddleware demo_validate 400 [(''post'', ''body'')])
          (call_mw (logging ''route'') (call_handler (answering ''POST''))))
   \<and> map_of [(''post'', ''body'')] (toLowerCase (http_method (req (logged [])))) = None
   \<and> fst (route_chain products (answering ''GET'')
        (demo_store [logging ''global''] [logging ''route''])) (logged []) =
      (Inr \<lparr>status = 200, body = JsonBody (JString ''GET'')\<rparr>, logged [''route''],
       [MwCall ''route'', HandlerCall ''GET''])
   \<and> composed_chain validating_env products
        (fst (route_chain products (answering ''GET'')
           (demo_store [logging ''global''] [logging ''route'']))) (logged []) =
      (Inr \<lparr>status = 200, body = JsonBody (JString ''GET'')\<rparr>, logged [''route''],
       [MwCall ''validation'', MwCall ''route'', HandlerCall ''GET''])
   \<and> schema products_plain = None
   \<and> fst (build_chain validating_env (demo_burger products_plain) products_plain (answering ''GET'')
        (demo_store [logging ''global''] [logging ''route''])) =
      call_mw (logging ''global'') (call_mw (logging ''route'') (call_handler (answering ''GET'')))"
proof -
  let ?s = "demo_store [logging ''global''] [logging ''route'']"
  let ?rc = "fst (route_chain products (answering ''GET'') ?s)"
  let ?cc = "composed_chain validating_env products ?rc"
  have post: "map_of [(''post'', ''body'')]
      (toLowerCase (http_method (req (demo_request ''POST'' ''/api/products'')))) = Some ''body''"
    by (simp add: demo_request_def toLowerCase_def)
  have get: "map_of [(''post'', ''body'')] (toLowerCase (http_method (req (logged [])))) = None"
    by (simp add: logged_method)
  note inserted = validation_stage_per_method [OF demo_global [of products "[logging ''global'']"
        "[logging ''route'']"] validating_env_factory, where rt = products and h = "answering ''POST''",
      THEN conjunct1, rule_format, OF products_schema post]
  note passes_on = validation_stage_per_method [OF demo_global [of products "[logging ''global'']"
        "[logging ''route'']"] validating_env_factory, where rt = products and h = "answering ''GET''",
      THEN conjunct2, THEN conjunct1, rule_format, OF products_schema get]
  note absent = validation_stage_per_method [OF demo_global [of products_plain "[logging ''global'']"
        "[logging ''route'']"] validating_env_factory, where rt = products_plain
        and h = "answering ''GET''",
      THEN conjunct2, THEN conjunct2, THEN conjunct1, rule_format, OF products_plain_schema]
  have rc: "?rc (logged []) =
      (Inr \<lparr>status = 200, body = JsonBody (JString ''GET'')\<rparr>, logged [''route''],
       [MwCall ''route'', HandlerCall ''GET''])"
    by (simp add: route_chain_fst products_route_middleware call_mw_def call_handler_def
        logging_def answering_def res_json_def logged_def attach_def demo_request_def)
  have 1: "fst (build_chain validating_env (demo_burger products) products (answering ''POST'') ?s) =
      call_mw (logging ''global'')
        (call_mw (spec_createValidationMiddleware demo_validate 400 [(''post'', ''body'')])
          (call_mw (logging ''route'') (call_handler (answering ''POST''))))"
    using inserted by (simp add: demo_global_array products_route_middleware)
  have 2: "?cc (logged []) =
      (Inr \<lparr>status = 200, body = JsonBody (JString ''GET'')\<rparr>, logged [''route''],
       [MwCall ''validation'', MwCall ''route'', HandlerCall ''GET''])"
    using passes_on rc by (simp add: prod_eq_iff)
  have 3: "fst (build_chain validating_env (demo_burger products_plain) products_plain (answering ''GET'') ?s) =
      call_mw (logging ''global'') (call_mw (logging ''route'') (call_handler (answering ''GET'')))"
    using absent
    by (simp add: demo_global_array route_chain_fst products_plain_route_middleware)
  show ?thesis
    using validating_env_factory products_schema post 1 get rc 2 products_plain_schema 3
    by blast
qed

section \<open>Error responses and special paths\<close>

text \<open>
  C5. A request that is not for a special path, whose path resolves to a route, and whose
  upper-cased method has no entry in that route's handlers, is answered with status 405 and
  the body \<open>{ "error": "Method Not Allowed" }\<close>. No user function is called (the list
  of calls is empty) and no chain is built (the store, where building a chain would
  allocate the copies it reverses, is returned as it was). The parameters have been
  attached to the request by then.
\<close>

theorem method_not_allowed_405:
  assumes "\<not> special_path (pathname (req w))"
    and "apiRouter b = Some r"
    and "resolve env r (req w) = (Some rt, ps)"
    and "handlers rt (toUpperCase (http_method (req w))) = None"
  shows "api_handler env b s w =
           (Inr \<lparr>status = 405, body = JsonBody (JObject [(''error'', JString ''Method Not Allowed'')])\<rparr>,
            attach ps w, [], s)"
  using assms
  by (simp add: api_handler_def special_path_def attach_def res_json_def res_status_def
      method_not_allowed_def)

theorem method_not_allowed_405_witness:
  "\<not> special_path (pathname (req (demo_request ''delete'' ''/api/products'')))
   \<and> apiRouter (demo_burger products) = Some (demo_router products)
   \<and> resolve demo_env (demo_router products) (req (demo_request ''delete'' ''/api/products''))
       = (Some products, [])
   \<and> handlers products (toUpperCase (http_method (req (demo_request ''delete'' ''/api/products'')))) = None
   \<and> api_handler demo_env (demo_burger products)
        (demo_store [logging ''A''] [logging ''C'']) (demo_request ''delete'' ''/api/products'') =
       (Inr \<lparr>status = 405, body = JsonBody (JObject [(''error'', JString ''Method Not Allowed'')])\<rparr>,
        attach [] (demo_request ''delete'' ''/api/products''), [],
        demo_store [logging ''A''] [logging ''C''])"
proof -
  have 4: "handlers products (toUpperCase (http_method (req (demo_request ''delete'' ''/api/products'')))) = None"
    by (simp add: products_def toUpperCase_def demo_request_def)
  show ?thesis
    using demo_not_special demo_apiRouter demo_resolve 4
      method_not_allowed_405 [OF demo_not_special demo_apiRouter demo_resolve 4,
        of "demo_store [logging ''A''] [logging ''C'']"]
    by simp
qed

text \<open>
  C6. A request that is not for a special path and whose path resolves to no route is
  answered with status 404 and the body \<open>{ "error": "Route not found" }\<close>, whatever its
  method. The world is returned untouched (in particular \<open>req.params\<close> is not assigned),
  no user function is called and the store is as it was.
\<close>

theorem route_not_found_404:
  assumes "\<not> special_path (pathname (req w))"
    and "apiRouter b = Some r"
    and "fst (resolve env r (req w)) = None"
  shows "api_handler env b s w =
           (Inr \<lparr>status = 404, body = JsonBody (JObject [(''error'', JString ''Route not found'')])\<rparr>,
            w, [], s)"
  using assms
  by (cases "resolve env r (req w)")
     (simp add: api_handler_def special_path_def res_json_def res_status_def route_not_found_def)

theorem route_not_found_404_witness:
  "\<not> special_path (pathname (req (demo_request ''GET'' ''/api/unknown'')))
   \<and> apiRouter (demo_burger products) = Some (demo_router products)
   \<and> fst (resolve demo_env (demo_router products) (req (demo_request ''GET'' ''/api/unknown''))) = None
   \<and> api_handler demo_env (demo_burger products)
        (demo_store [logging ''A''] [logging ''C'']) (demo_request ''GET'' ''/api/unknown'') =
       (Inr \<lparr>status = 404, body = JsonBody (JObject [(''error'', JString ''Route not found'')])\<rparr>,
        demo_request ''GET'' ''/api/unknown'', [], demo_store [logging ''A''] [logging ''C''])"
proof -
  have 1: "\<not> special_path (pathname (req (demo_request ''GET'' ''/api/unknown'')))"
    by (simp add: special_path_def demo_request_def)
  have 3: "fst (resolve demo_env (demo_router products) (req (demo_request ''GET'' ''/api/unknown''))) = None"
    by (simp add: demo_env_def demo_router_def demo_request_def)
  show ?thesis
    using 1 demo_apiRouter 3
      route_not_found_404 [OF 1 demo_apiRouter 3, of "demo_store [logging ''A''] [logging ''C'']"]
    by simp
qed

text \<open>
  C7. A request for \<open>/openapi.json\<close> or \<open>/docs\<close> is answered at once, with the generated
  document or the documentation page: the world and the store are returned untouched and
  no user function is called. The answer is the same whatever the resolver and the
  validation middleware factory are, so neither route resolution nor any middleware
  takes part in it.
\<close>

theorem special_paths_bypass:
  assumes "special_path (pathname (req w))"
    and "apiRouter b = Some r"
  shows "api_handler env b s w =
           (Inr (if pathname (req w) = ''/openapi.json''
                 then res_json (generateOpenAPIDocument env r (options b)) (res w)
                 else res_html (swaggerHtml env) (res w)),
            w, [], s)
       \<and> api_handler (env\<lparr>resolve := rs, createValidationMiddleware := cv\<rparr>) b s w =
           api_handler env b s w"
  using assms
  by (auto simp add: api_handler_def special_path_def)

theorem special_paths_bypass_witness:
  "special_path (pathname (req (demo_request ''GET'' ''/docs'')))
   \<and> apiRouter (demo_burger products) = Some (demo_router products)
   \<and> api_handler demo_env (demo_burger products)
        (demo_store [logging ''A''] [logging ''C'']) (demo_request ''GET'' ''/docs'') =
       (Inr \<lparr>status = 200, body = HtmlBody ''<html></html>''\<rparr>,
        demo_request ''GET'' ''/docs'', [], demo_store [logging ''A''] [logging ''C''])"
proof -
  have 1: "special_path (pathname (req (demo_request ''GET'' ''/docs'')))"
    by (simp add: special_path_def demo_request_def)
  have "pathname (req (demo_request ''GET'' ''/docs'')) \<noteq> ''/openapi.json''"
    by (simp add: demo_request_def)
  moreover have "res_html (swaggerHtml demo_env) (res (demo_request ''GET'' ''/docs''))
      = \<lparr>status = 200, body = HtmlBody ''<html></html>''\<rparr>"
    by (simp add: res_html_def demo_env_def demo_request_def)
  ultimately show ?thesis
    using 1 demo_apiRouter
      special_paths_bypass [OF 1 demo_apiRouter, where env = demo_env
        and s = "demo_store [logging ''A''] [logging ''C'']"]
    by simp
qed

section \<open>The API router, the installed closure and the shared arrays\<close>

text \<open>
  C8 (as amended). In every state the object can reach after \<open>serve\<close>, the API router is
  defined exactly when the \<open>apiDir\<close> option was given, and the API request handler is the
  installed closure exactly when the API router is defined. With it, \<open>/openapi.json\<close>
  is answered with the generated document and \<open>/docs\<close> with the documentation page.
  Without it, the installed closure is the default handler, and a request for \<open>/docs\<close>
  is answered with status 200 and \<open>{ "message": "Hello from burger-api!" }\<close>.
\<close>

theorem special_endpoints_need_router:
  assumes "reachable env (b, s)" and "server b = Some sv"
  shows "(apiRouter b \<noteq> None) = truthy (apiDir (options b))
       \<and> (requestHandler sv = ApiHandler) = (apiRouter b \<noteq> None)
       \<and> (apiRouter b = Some r \<longrightarrow> pathname (req w) = ''/openapi.json'' \<longrightarrow>
            handle_request env (requestHandler sv) b s w =
              (Inr (res_json (generateOpenAPIDocument env r (options b)) (res w)), w, [], s))
       \<and> (apiRouter b = Some r \<longrightarrow> pathname (req w) = ''/docs'' \<longrightarrow>
            handle_request env (requestHandler sv) b s w =
              (Inr (res_html (swaggerHtml env) (res w)), w, [], s))
       \<and> (apiRouter b = None \<longrightarrow> pathname (req w) = ''/docs'' \<longrightarrow>
            handle_request env (requestHandler sv) b s w =
              (Inr \<lparr>status = 200,
                     body = JsonBody (JObject [(''message'', JString ''Hello from burger-api!'')])\<rparr>,
               w, [], s))"
proof -
  from reachable_invariant [OF assms(1)] assms(2)
  have 0: "(apiRouter b = None) = (\<not> truthy (apiDir (options b)))"
    and 3: "(requestHandler sv = DefaultHandler) = (apiRouter b = None)" by simp_all
  from 0 have 1: "(apiRouter b \<noteq> None) = truthy (apiDir (options b))" by simp
  from 3 have 2: "(requestHandler sv = ApiHandler) = (apiRouter b \<noteq> None)"
    by (cases "requestHandler sv") simp_all
  show ?thesis
    using 1 2 3
    by (auto simp add: handle_request_def api_handler_def default_handler_def
        res_json_def res_status_def)
qed

theorem special_endpoints_need_router_witness:
  "reachable demo_env (fst demo_app, snd demo_app)
   \<and> truthy (apiDir (options (fst demo_app)))
   \<and> handle_request demo_env ApiHandler (fst demo_app) (snd demo_app) (demo_request ''GET'' ''/docs'') =
      (Inr \<lparr>status = 200, body = HtmlBody ''<html></html>''\<rparr>, demo_request ''GET'' ''/docs'', [],
       snd demo_app)
   \<and> reachable demo_env (fst bare_app, snd bare_app)
   \<and> apiRouter (fst bare_app) = None
   \<and> handle_request demo_env DefaultHandler (fst bare_app) (snd bare_app) (demo_request ''GET'' ''/docs'') =
      (Inr \<lparr>status = 200, body = JsonBody (JObject [(''message'', JString ''Hello from burger-api!'')])\<rparr>,
       demo_request ''GET'' ''/docs'', [], snd bare_app)"
proof -
  let ?w = "demo_request ''GET'' ''/docs''"
  have p: "pathname (req ?w) = ''/docs''"
    by (simp add: demo_request_def)
  have h: "res_html (swaggerHtml demo_env) (res ?w) = \<lparr>status = 200, body = HtmlBody ''<html></html>''\<rparr>"
    by (simp add: demo_env_def res_html_def demo_request_def)
  note with_router = special_endpoints_need_router [OF demo_app_reachable demo_app_server,
      where w = ?w and r = "\<lparr>dir = ''api'', prefix = ''api'', routes = []\<rparr>"]
  note without_router = special_endpoints_need_router [OF bare_app_reachable bare_app_server,
      where w = ?w]
  have "truthy (apiDir (options (fst demo_app)))"
    using with_router demo_app_apiRouter by simp
  moreover have "handle_request demo_env ApiHandler (fst demo_app) (snd demo_app) ?w =
      (Inr \<lparr>status = 200, body = HtmlBody ''<html></html>''\<rparr>, ?w, [], snd demo_app)"
    using with_router demo_app_apiRouter p h by simp
  moreover have "handle_request demo_env DefaultHandler (fst bare_app) (snd bare_app) ?w =
      (Inr \<lparr>status = 200, body = JsonBody (JObject [(''message'', JString ''Hello from burger-api!'')])\<rparr>,
       ?w, [], snd bare_app)"
    using without_router bare_app_apiRouter p by simp
  ultimately show ?thesis
    using demo_app_reachable bare_app_reachable bare_app_apiRouter by blast
qed

text \<open>
  An object made without \<open>apiDir\<close> answers \<open>GET /docs\<close> with status 200 and the
  greeting of the default handler, not with a 500-class error about the configuration.
\<close>

theorem no_router_docs_counterexample:
  "apiRouter (fst bare_app) = None
   \<and> server (fst bare_app) = Some \<lparr>pageRoutes = None, requestHandler = DefaultHandler, port = 4000\<rparr>
   \<and> fst (handle_request demo_env DefaultHandler (fst bare_app) (snd bare_app)
        (demo_request ''GET'' ''/docs'')) =
      Inr \<lparr>status = 200, body = JsonBody (JObject [(''message'', JString ''Hello from burger-api!'')])\<rparr>
   \<and> fst (handle_request demo_env DefaultHandler (fst bare_app) (snd bare_app)
        (demo_request ''GET'' ''/docs'')) \<noteq>
      Inr \<lparr>status = 500, body = JsonBody router_not_configured\<rparr>"
  by (simp add: bare_app_apiRouter bare_app_server handle_request_def default_handler_def
      res_json_def res_status_def)

text \<open>
  C9. Whatever closure handles a request, every array that existed before the request has
  the same content after it: the global middleware array, and the middleware array of
  every route. Only arrays allocated during the request (the copies made by \<open>slice\<close>,
  which \<open>reverse\<close> then overwrites) are written. The closures assign no field of the
  \<open>Burger\<close> object, routers and routes included, which is why the model's handlers return
  a store and no object. User code is given the world of the request and not the store:
  what a handler or middleware might itself do to the framework's arrays is outside the
  statement.
\<close>

theorem request_preserves_middleware_lists:
  assumes "handle_request env k b s w = (out, w', t, s')"
  shows "(\<forall>a. a < fresh s \<longrightarrow> arrays s' a = arrays s a)
       \<and> fresh s \<le> fresh s'
       \<and> (globalMiddleware b < fresh s \<longrightarrow>
            arrays s' (globalMiddleware b) = arrays s (globalMiddleware b))
       \<and> (\<forall>rt a. middleware rt = Some a \<longrightarrow> a < fresh s \<longrightarrow>
            route_middleware rt s' = route_middleware rt s)"
proof -
  have s': "s' = s \<or> (\<exists>rt h. s' = snd (build_chain env b rt h s))"
  proof (cases k)
    case ApiHandler
    then show ?thesis using assms api_handler_store [of env b s w]
      by (simp add: handle_request_def)
  next
    case DefaultHandler
    then show ?thesis using assms by (simp add: handle_request_def default_handler_def)
  qed
  have frame: "arrays s' a = arrays s a" if "a < fresh s" for a
    using s' that by (auto simp add: build_chain_frame)
  have mono: "fresh s \<le> fresh s'"
    using s' by (auto simp add: build_chain_fresh)
  show ?thesis using frame mono by (auto simp add: route_middleware_def)
qed

theorem request_preserves_middleware_lists_witness:
  "arrays (snd (snd (snd (handle_request demo_env ApiHandler (demo_burger products)
      (demo_store [logging ''A'', logging ''B''] [logging ''C'', logging ''D''])
      (demo_request ''get'' ''/api/products''))))) 0 = [logging ''A'', logging ''B'']
   \<and> arrays (snd (snd (snd (handle_request demo_env ApiHandler (demo_burger products)
      (demo_store [logging ''A'', logging ''B''] [logging ''C'', logging ''D''])
      (demo_request ''get'' ''/api/products''))))) 1 = [logging ''C'', logging ''D'']
   \<and> arrays (snd (snd (snd (handle_request demo_env ApiHandler (demo_burger products)
      (demo_store [logging ''A'', logging ''B''] [logging ''C'', logging ''D''])
      (demo_request ''get'' ''/api/products''))))) 2 = [logging ''D'', logging ''C'']
   \<and> arrays (snd (snd (snd (handle_request demo_env ApiHandler (demo_burger products)
      (demo_store [logging ''A'', logging ''B''] [logging ''C'', logging ''D''])
      (demo_request ''get'' ''/api/products''))))) 3 = [logging ''B'', logging ''A'']"
proof -
  let ?s = "demo_store [logging ''A'', logging ''B''] [logging ''C'', logging ''D'']"
  let ?x = "handle_request demo_env ApiHandler (demo_burger products) ?s (demo_request ''get'' ''/api/products'')"
  have x: "?x = (fst ?x, fst (snd ?x), fst (snd (snd ?x)), snd (snd (snd ?x)))" by simp
  have f: "fresh ?s = 2" by (simp add: demo_store_def)
  have old: "arrays ?s 0 = [logging ''A'', logging ''B'']" "arrays ?s 1 = [logging ''C'', logging ''D'']"
    by (simp_all add: demo_store_def)
  have "arrays (snd (snd (snd ?x))) 0 = arrays ?s 0 \<and> arrays (snd (snd (snd ?x))) 1 = arrays ?s 1"
    using request_preserves_middleware_lists [OF x, THEN conjunct1] f by simp
  moreover have "arrays (snd (snd (snd ?x))) 2 = [logging ''D'', logging ''C'']
      \<and> arrays (snd (snd (snd ?x))) 3 = [logging ''B'', logging ''A'']"
    by (simp add: handle_request_def api_handler_def build_chain_def route_chain_def
        final_handler_def slice_def alloc_def reverse_def toUpperCase_def case_prod_beta Let_def
        demo_env_def demo_burger_def demo_router_def demo_store_def demo_request_def products_def)
  ultimately show ?thesis using old by simp
qed

text \<open>
  C10. In every state the object can reach, if the closure installed by \<open>serve\<close> is the
  API request handler then \<open>this.apiRouter\<close> is defined. So the branch of that handler
  that answers \<open>/openapi.json\<close> with status 500 and \<open>API Router not configured\<close> is
  never taken: every request for \<open>/openapi.json\<close> gets the generated document.
\<close>

theorem router_missing_branch_unreachable:
  assumes "reachable env (b, s)" and "server b = Some sv" and "requestHandler sv = ApiHandler"
  shows "\<exists>r. apiRouter b = Some r
           \<and> (pathname (req w) = ''/openapi.json'' \<longrightarrow>
                handle_request env (requestHandler sv) b s w =
                  (Inr (res_json (generateOpenAPIDocument env r (options b)) (res w)), w, [], s))"
proof -
  from reachable_invariant [OF assms(1)] assms(2,3) have "apiRouter b \<noteq> None" by auto
  then obtain r where "apiRouter b = Some r" by blast
  then show ?thesis
    using assms(3) by (auto simp add: handle_request_def api_handler_def)
qed

theorem router_missing_branch_unreachable_witness:
  "reachable demo_env (fst demo_app, snd demo_app)
   \<and> server (fst demo_app) = Some \<lparr>pageRoutes = Some Map.empty, requestHandler = ApiHandler, port = 4000\<rparr>
   \<and> apiRouter (fst demo_app) = Some \<lparr>dir = ''api'', prefix = ''api'', routes = []\<rparr>
   \<and> handle_request demo_env ApiHandler (fst demo_app) (snd demo_app)
        (demo_request ''GET'' ''/openapi.json'') =
      (Inr \<lparr>status = 200, body = JsonBody (JObject [(''openapi'', JString ''3.0.0'')])\<rparr>,
       demo_request ''GET'' ''/openapi.json'', [], snd demo_app)"
proof -
  let ?w = "demo_request ''GET'' ''/openapi.json''"
  have p: "pathname (req ?w) = ''/openapi.json''"
    by (simp add: demo_request_def)
  have d: "res_json (generateOpenAPIDocument demo_env r (options (fst demo_app))) (res ?w)
      = \<lparr>status = 200, body = JsonBody (JObject [(''openapi'', JString ''3.0.0'')])\<rparr>" for r
    by (simp add: demo_env_def res_json_def demo_request_def)
  have "handle_request demo_env ApiHandler (fst demo_app) (snd demo_app) ?w =
      (Inr \<lparr>status = 200, body = JsonBody (JObject [(''openapi'', JString ''3.0.0'')])\<rparr>,
       ?w, [], snd demo_app)"
    using router_missing_branch_unreachable [OF demo_app_reachable demo_app_server, of ?w] p d
    by auto
  then show ?thesis
    using demo_app_reachable demo_app_server demo_app_apiRouter by simp
qed

end
